theory Spec2Isabelle
  imports Main
begin

section \<open>Reflected Go types\<close>

text \<open>
  The validator of \<^verbatim>\<open>gomock/internal/calldo/validate.go\<close> works on values of
  \<^verbatim>\<open>reflect.Type\<close>. It uses nine operations of that interface: \<^verbatim>\<open>Kind\<close>,
  \<^verbatim>\<open>Elem\<close>, \<^verbatim>\<open>Key\<close>, \<^verbatim>\<open>NumIn\<close>, \<^verbatim>\<open>In\<close>, \<^verbatim>\<open>IsVariadic\<close>, \<^verbatim>\<open>NumOut\<close>,
  \<^verbatim>\<open>Out\<close>, \<^verbatim>\<open>ConvertibleTo\<close>, and the comparison \<^verbatim>\<open>==\<close> of two types.

  A reflected type is modelled by its type expression. Go keeps one descriptor per type,
  so \<^verbatim>\<open>==\<close> on \<^verbatim>\<open>reflect.Type\<close> is type identity; on type expressions it is
  equality of terms. A defined type (\<^verbatim>\<open>type T U\<close>) carries its name and its underlying
  type, and is different from every other type. Recursive type definitions are outside
  the model.
\<close>

text \<open>The kinds of \<^verbatim>\<open>reflect.Kind\<close>; \<open>IntK\<close> is \<^verbatim>\<open>reflect.Int\<close>.\<close>

datatype kind =
    Bool | IntK | Int8 | Int16 | Int32 | Int64
  | Uint | Uint8 | Uint16 | Uint32 | Uint64 | Uintptr
  | Float32 | Float64 | Complex64 | Complex128
  | Array | Chan | Func | Interface | Map | Pointer | Slice | String | Struct
  | UnsafePointer

datatype basic =
    TBool | TInt | TInt8 | TInt16 | TInt32 | TInt64
  | TUint | TUint8 | TUint16 | TUint32 | TUint64 | TUintptr
  | TFloat32 | TFloat64 | TComplex64 | TComplex128 | TString | TUnsafePointer

datatype chandir = RecvDir | SendDir | BothDir

text \<open>
  \<open>FuncT ps v rs\<close> is the function type with the ordinary parameters \<open>ps\<close>, the results
  \<open>rs\<close> and, when \<open>v = Some e\<close>, a final variadic parameter \<^verbatim>\<open>...e\<close>. As in Go, a
  variadic function type always has that final parameter, and reflection shows it with
  the slice type \<^verbatim>\<open>[]e\<close>.
\<close>

datatype gotype =
    BasicT basic
  | ArrayT nat gotype
  | ChanT chandir gotype
  | FuncT "gotype list" "gotype option" "gotype list"
  | InterfaceT "(string \<times> gotype) list"
  | MapT gotype gotype
  | PointerT gotype
  | SliceT gotype
  | StructT "(string \<times> gotype) list"
  | Named string gotype

fun basicKind :: "basic \<Rightarrow> kind" where
  "basicKind TBool = Bool"
| "basicKind TInt = IntK"
| "basicKind TInt8 = Int8"
| "basicKind TInt16 = Int16"
| "basicKind TInt32 = Int32"
| "basicKind TInt64 = Int64"
| "basicKind TUint = Uint"
| "basicKind TUint8 = Uint8"
| "basicKind TUint16 = Uint16"
| "basicKind TUint32 = Uint32"
| "basicKind TUint64 = Uint64"
| "basicKind TUintptr = Uintptr"
| "basicKind TFloat32 = Float32"
| "basicKind TFloat64 = Float64"
| "basicKind TComplex64 = Complex64"
| "basicKind TComplex128 = Complex128"
| "basicKind TString = String"
| "basicKind TUnsafePointer = UnsafePointer"

text \<open>\<^verbatim>\<open>Kind\<close> never panics; a defined type has the kind of its underlying type.\<close>

fun Kind :: "gotype \<Rightarrow> kind" where
  "Kind (BasicT b) = basicKind b"
| "Kind (ArrayT n t) = Array"
| "Kind (ChanT d t) = Chan"
| "Kind (FuncT ps v rs) = Func"
| "Kind (InterfaceT ms) = Interface"
| "Kind (MapT k t) = Map"
| "Kind (PointerT t) = Pointer"
| "Kind (SliceT t) = Slice"
| "Kind (StructT fs) = Struct"
| "Kind (Named n u) = Kind u"

text \<open>
  The other accessors panic when the type has the wrong kind: \<^verbatim>\<open>Elem\<close> unless the kind
  is Array, Chan, Map, Pointer or Slice, \<^verbatim>\<open>Key\<close> unless it is Map, the function
  accessors unless it is Func, and \<^verbatim>\<open>In\<close> and \<^verbatim>\<open>Out\<close> also when the index is out of
  range. A panic is the value \<open>None\<close>.
\<close>

fun Elem :: "gotype \<Rightarrow> gotype option" where
  "Elem (ArrayT n t) = Some t"
| "Elem (ChanT d t) = Some t"
| "Elem (MapT k t) = Some t"
| "Elem (PointerT t) = Some t"
| "Elem (SliceT t) = Some t"
| "Elem (Named n u) = Elem u"
| "Elem (BasicT b) = None"
| "Elem (FuncT ps v rs) = None"
| "Elem (InterfaceT ms) = None"
| "Elem (StructT fs) = None"

fun Key :: "gotype \<Rightarrow> gotype option" where
  "Key (MapT k t) = Some k"
| "Key (Named n u) = Key u"
| "Key (BasicT b) = None"
| "Key (ArrayT n t) = None"
| "Key (ChanT d t) = None"
| "Key (FuncT ps v rs) = None"
| "Key (InterfaceT ms) = None"
| "Key (PointerT t) = None"
| "Key (SliceT t) = None"
| "Key (StructT fs) = None"

text \<open>The parameter types as reflection lists them: the variadic one last, as a slice.\<close>

fun inTypes :: "gotype \<Rightarrow> gotype list option" where
  "inTypes (FuncT ps v rs) = Some (ps @ (case v of None \<Rightarrow> [] | Some e \<Rightarrow> [SliceT e]))"
| "inTypes (Named n u) = inTypes u"
| "inTypes (BasicT b) = None"
| "inTypes (ArrayT n t) = None"
| "inTypes (ChanT d t) = None"
| "inTypes (InterfaceT ms) = None"
| "inTypes (MapT k t) = None"
| "inTypes (PointerT t) = None"
| "inTypes (SliceT t) = None"
| "inTypes (StructT fs) = None"

fun outTypes :: "gotype \<Rightarrow> gotype list option" where
  "outTypes (FuncT ps v rs) = Some rs"
| "outTypes (Named n u) = outTypes u"
| "outTypes (BasicT b) = None"
| "outTypes (ArrayT n t) = None"
| "outTypes (ChanT d t) = None"
| "outTypes (InterfaceT ms) = None"
| "outTypes (MapT k t) = None"
| "outTypes (PointerT t) = None"
| "outTypes (SliceT t) = None"
| "outTypes (StructT fs) = None"

fun IsVariadic :: "gotype \<Rightarrow> bool option" where
  "IsVariadic (FuncT ps v rs) = Some (v \<noteq> None)"
| "IsVariadic (Named n u) = IsVariadic u"
| "IsVariadic (BasicT b) = None"
| "IsVariadic (ArrayT n t) = None"
| "IsVariadic (ChanT d t) = None"
| "IsVariadic (InterfaceT ms) = None"
| "IsVariadic (MapT k t) = None"
| "IsVariadic (PointerT t) = None"
| "IsVariadic (SliceT t) = None"
| "IsVariadic (StructT fs) = None"

text \<open>Indices and counts are Go \<^verbatim>\<open>int\<close>s; a negative index is out of range.\<close>

definition index :: "gotype list \<Rightarrow> int \<Rightarrow> gotype option" where
  "index ts i = (if 0 \<le> i \<and> i < int (length ts) then Some (ts ! nat i) else None)"

definition NumIn :: "gotype \<Rightarrow> int option" where
  "NumIn t = map_option (\<lambda>ts. int (length ts)) (inTypes t)"

definition In :: "gotype \<Rightarrow> int \<Rightarrow> gotype option" where
  "In t i = (case inTypes t of None \<Rightarrow> None | Some ts \<Rightarrow> index ts i)"

definition NumOut :: "gotype \<Rightarrow> int option" where
  "NumOut t = map_option (\<lambda>ts. int (length ts)) (outTypes t)"

definition Out :: "gotype \<Rightarrow> int \<Rightarrow> gotype option" where
  "Out t i = (case outTypes t of None \<Rightarrow> None | Some ts \<Rightarrow> index ts i)"

text \<open>
  \<^verbatim>\<open>ConvertibleTo\<close> is Go's conversion rule, which belongs to the reflection library and
  not to the validator. Every function below takes it as its first argument
  \<open>conv\<close>, with \<open>conv src dst\<close> for \<^verbatim>\<open>src.ConvertibleTo(dst)\<close>, and every general
  theorem holds for each such predicate.
\<close>

type_synonym convertible = "gotype \<Rightarrow> gotype \<Rightarrow> bool"

section \<open>The validator\<close>

text \<open>
  One constructor for each error the source builds. \<open>MapKey\<close> and \<open>MapElement\<close> are the
  two \<^verbatim>\<open>errors.Wrap\<close> calls of \<^verbatim>\<open>validateMapArg\<close>; \<open>InputArgument\<close> and
  \<open>ReturnArgument\<close> are the two wrappers of \<^verbatim>\<open>ValidateInputAndOutputSig\<close>. Each error
  keeps the values its message is formatted from, in the order of the format string.
\<close>

datatype arg_error =
    NotConvertible gotype gotype
  | MapKey arg_error
  | MapKeyMismatch gotype gotype
  | MapElement arg_error
  | MapElementMismatch gotype gotype
  | KindMismatch kind kind
  | TypeMismatch gotype gotype

datatype sig_error =
    InputArity int int
  | VariadicMismatch gotype int gotype
  | InputArgument int arg_error
  | ReturnArity int int
  | ReturnArgument int arg_error

text \<open>
  A function that returns a Go \<^verbatim>\<open>error\<close> has three outcomes: it panics, it returns
  an error, or it returns \<^verbatim>\<open>nil\<close>.
\<close>

datatype 'e result = Panic | Fail 'e | Ok

fun validateVariadicArg :: "convertible \<Rightarrow> int \<Rightarrow> gotype \<Rightarrow> gotype \<Rightarrow> bool option" where
  "validateVariadicArg conv lastIdx doFunc callFunc =
    (case In doFunc (lastIdx - 1) of None \<Rightarrow> None | Some doArgT \<Rightarrow>
      (case In callFunc (lastIdx - 1) of None \<Rightarrow> None | Some callArgT \<Rightarrow>
        (if doArgT \<noteq> callArgT then
           (if Kind doArgT \<noteq> Slice then Some False
            else
              (case Elem callArgT of None \<Rightarrow> None | Some callElem \<Rightarrow>
                (if Kind callElem \<noteq> Interface then Some False
                 else
                   (case Elem doArgT of None \<Rightarrow> None | Some doElem \<Rightarrow>
                     (if \<not> conv doElem callElem then Some False else Some True)))))
         else Some True)))"

fun validateInterfaceArg :: "convertible \<Rightarrow> gotype \<Rightarrow> gotype \<Rightarrow> arg_error result" where
  "validateInterfaceArg conv doArg callArg =
    (if \<not> conv doArg callArg then Fail (NotConvertible callArg doArg) else Ok)"

text \<open>
  \<^verbatim>\<open>validateMapArg\<close> in two halves, as the source has them: the switch on the key
  type, then the switch on the element type.
\<close>

fun validateMapKey :: "convertible \<Rightarrow> gotype \<Rightarrow> gotype \<Rightarrow> arg_error result" where
  "validateMapKey conv doArg callArg =
    (case Key callArg of None \<Rightarrow> Panic | Some callKey \<Rightarrow>
      (case Key doArg of None \<Rightarrow> Panic | Some doKey \<Rightarrow>
        (if Kind callKey = Interface then
           (case validateInterfaceArg conv doKey callKey of
              Panic \<Rightarrow> Panic
            | Fail err \<Rightarrow> Fail (MapKey err)
            | Ok \<Rightarrow> Ok)
         else if doKey \<noteq> callKey then Fail (MapKeyMismatch callKey doKey)
         else Ok)))"

fun validateMapElem :: "convertible \<Rightarrow> gotype \<Rightarrow> gotype \<Rightarrow> arg_error result" where
  "validateMapElem conv doArg callArg =
    (case Elem callArg of None \<Rightarrow> Panic | Some callElem \<Rightarrow>
      (case Elem doArg of None \<Rightarrow> Panic | Some doElem \<Rightarrow>
        (if Kind callElem = Interface then
           (case validateInterfaceArg conv doElem callElem of
              Panic \<Rightarrow> Panic
            | Fail err \<Rightarrow> Fail (MapElement err)
            | Ok \<Rightarrow> Ok)
         else if doElem \<noteq> callElem then Fail (MapElementMismatch callElem doElem)
         else Ok)))"

fun validateMapArg :: "convertible \<Rightarrow> gotype \<Rightarrow> gotype \<Rightarrow> arg_error result" where
  "validateMapArg conv doArg callArg =
    (case validateMapKey conv doArg callArg of
       Panic \<Rightarrow> Panic
     | Fail err \<Rightarrow> Fail err
     | Ok \<Rightarrow> validateMapElem conv doArg callArg)"

fun validateArg :: "convertible \<Rightarrow> gotype \<Rightarrow> gotype \<Rightarrow> arg_error result" where
  "validateArg conv doArg callArg =
    (if Kind callArg = Interface then validateInterfaceArg conv doArg callArg
     else if Kind callArg \<noteq> Kind doArg then Fail (KindMismatch (Kind callArg) (Kind doArg))
     else if Kind callArg = Map then validateMapArg conv doArg callArg
     else if doArg \<noteq> callArg then Fail (TypeMismatch callArg doArg)
     else Ok)"

text \<open>
  The first loop of \<^verbatim>\<open>ValidateInputAndOutputSig\<close>, from its index \<open>i\<close> on; it runs
  while \<open>i < lastIdx\<close>.
\<close>

function inputLoop :: "convertible \<Rightarrow> gotype \<Rightarrow> gotype \<Rightarrow> int \<Rightarrow> int \<Rightarrow> sig_error result" where
  "inputLoop conv doFunc callFunc lastIdx i =
    (if i < lastIdx then
       (case In callFunc i of None \<Rightarrow> Panic | Some callArg \<Rightarrow>
         (case In doFunc i of None \<Rightarrow> Panic | Some doArg \<Rightarrow>
           (case validateArg conv doArg callArg of
              Panic \<Rightarrow> Panic
            | Fail err \<Rightarrow> Fail (InputArgument i err)
            | Ok \<Rightarrow> inputLoop conv doFunc callFunc lastIdx (i + 1))))
     else Ok)"
  by pat_completeness auto
termination
  by (relation "measure (\<lambda>(conv, doFunc, callFunc, lastIdx, i). nat (lastIdx - i))") auto

declare inputLoop.simps [simp del]

text \<open>
  The second loop, which runs while \<open>i < callFunc.NumOut()\<close>; the source calls
  \<^verbatim>\<open>NumOut\<close> again at every test.
\<close>

function outputLoop :: "convertible \<Rightarrow> gotype \<Rightarrow> gotype \<Rightarrow> int \<Rightarrow> sig_error result" where
  "outputLoop conv doFunc callFunc i =
    (case NumOut callFunc of None \<Rightarrow> Panic | Some n \<Rightarrow>
      (if i < n then
         (case Out callFunc i of None \<Rightarrow> Panic | Some callArg \<Rightarrow>
           (case Out doFunc i of None \<Rightarrow> Panic | Some doArg \<Rightarrow>
             (case validateArg conv doArg callArg of
                Panic \<Rightarrow> Panic
              | Fail err \<Rightarrow> Fail (ReturnArgument i err)
              | Ok \<Rightarrow> outputLoop conv doFunc callFunc (i + 1))))
       else Ok))"
  by pat_completeness auto
termination
  by (relation "measure (\<lambda>(conv, doFunc, callFunc, i). nat (the (NumOut callFunc) - i))") auto

declare outputLoop.simps [simp del]

text \<open>
  \<^verbatim>\<open>ValidateInputAndOutputSig\<close> from its first loop to its end, for the value that
  \<^verbatim>\<open>lastIdx\<close> has when the loop starts.
\<close>

definition validateFrom :: "convertible \<Rightarrow> gotype \<Rightarrow> gotype \<Rightarrow> int \<Rightarrow> sig_error result" where
  "validateFrom conv doFunc callFunc lastIdx =
    (case inputLoop conv doFunc callFunc lastIdx 0 of
       Panic \<Rightarrow> Panic
     | Fail err \<Rightarrow> Fail err
     | Ok \<Rightarrow>
        (case NumOut doFunc of None \<Rightarrow> Panic | Some m \<Rightarrow>
          (case NumOut callFunc of None \<Rightarrow> Panic | Some n \<Rightarrow>
            (if m \<noteq> n then Fail (ReturnArity n m)
             else outputLoop conv doFunc callFunc 0))))"

text \<open>
  The whole function: the count of arguments, the variadic argument when \<^verbatim>\<open>callFunc\<close>
  is variadic (after which \<^verbatim>\<open>lastIdx\<close> is one less), and the rest. \<^verbatim>\<open>doFunc\<close> is the
  function given to \<^verbatim>\<open>Do\<close>, \<^verbatim>\<open>callFunc\<close> the mocked method.
\<close>

definition ValidateInputAndOutputSig :: "convertible \<Rightarrow> gotype \<Rightarrow> gotype \<Rightarrow> sig_error result" where
  "ValidateInputAndOutputSig conv doFunc callFunc =
    (case NumIn doFunc of None \<Rightarrow> Panic | Some m \<Rightarrow>
      (case NumIn callFunc of None \<Rightarrow> Panic | Some lastIdx \<Rightarrow>
        (if m \<noteq> lastIdx then Fail (InputArity lastIdx m)
         else
           (case IsVariadic callFunc of
              None \<Rightarrow> Panic
            | Some False \<Rightarrow> validateFrom conv doFunc callFunc lastIdx
            | Some True \<Rightarrow>
               (case validateVariadicArg conv lastIdx doFunc callFunc of
                  None \<Rightarrow> Panic
                | Some False \<Rightarrow>
                   (case In callFunc (lastIdx - 1) of None \<Rightarrow> Panic | Some callArg \<Rightarrow>
                     (case In doFunc (lastIdx - 1) of None \<Rightarrow> Panic | Some doArg \<Rightarrow>
                        Fail (VariadicMismatch callArg (lastIdx - 1) doArg)))
                | Some True \<Rightarrow> validateFrom conv doFunc callFunc (lastIdx - 1))))))"

section \<open>The specification's reading\<close>

text \<open>
  The five checks of the specification's traversal, one definition each, and the list of
  all checks of one validation in the order the specification gives. A check is \<open>Ok\<close>
  when it passes.
\<close>

definition inputArityCheck :: "gotype \<Rightarrow> gotype \<Rightarrow> sig_error result" where
  "inputArityCheck doFunc callFunc =
    (case NumIn doFunc of None \<Rightarrow> Panic | Some m \<Rightarrow>
      (case NumIn callFunc of None \<Rightarrow> Panic | Some n \<Rightarrow>
        (if m \<noteq> n then Fail (InputArity n m) else Ok)))"

definition variadicCheck :: "convertible \<Rightarrow> gotype \<Rightarrow> gotype \<Rightarrow> sig_error result" where
  "variadicCheck conv doFunc callFunc =
    (case NumIn callFunc of None \<Rightarrow> Panic | Some n \<Rightarrow>
      (case validateVariadicArg conv n doFunc callFunc of
         None \<Rightarrow> Panic
       | Some True \<Rightarrow> Ok
       | Some False \<Rightarrow>
          (case In callFunc (n - 1) of None \<Rightarrow> Panic | Some callArg \<Rightarrow>
            (case In doFunc (n - 1) of None \<Rightarrow> Panic | Some doArg \<Rightarrow>
               Fail (VariadicMismatch callArg (n - 1) doArg)))))"

definition inputCheck :: "convertible \<Rightarrow> gotype \<Rightarrow> gotype \<Rightarrow> int \<Rightarrow> sig_error result" where
  "inputCheck conv doFunc callFunc i =
    (case In callFunc i of None \<Rightarrow> Panic | Some callArg \<Rightarrow>
      (case In doFunc i of None \<Rightarrow> Panic | Some doArg \<Rightarrow>
        (case validateArg conv doArg callArg of
           Panic \<Rightarrow> Panic
         | Fail err \<Rightarrow> Fail (InputArgument i err)
         | Ok \<Rightarrow> Ok)))"

definition returnArityCheck :: "gotype \<Rightarrow> gotype \<Rightarrow> sig_error result" where
  "returnArityCheck doFunc callFunc =
    (case NumOut doFunc of None \<Rightarrow> Panic | Some m \<Rightarrow>
      (case NumOut callFunc of None \<Rightarrow> Panic | Some n \<Rightarrow>
        (if m \<noteq> n then Fail (ReturnArity n m) else Ok)))"

definition returnCheck :: "convertible \<Rightarrow> gotype \<Rightarrow> gotype \<Rightarrow> int \<Rightarrow> sig_error result" where
  "returnCheck conv doFunc callFunc i =
    (case Out callFunc i of None \<Rightarrow> Panic | Some callArg \<Rightarrow>
      (case Out doFunc i of None \<Rightarrow> Panic | Some doArg \<Rightarrow>
        (case validateArg conv doArg callArg of
           Panic \<Rightarrow> Panic
         | Fail err \<Rightarrow> Fail (ReturnArgument i err)
         | Ok \<Rightarrow> Ok)))"

text \<open>
  The number of positional input checks (every parameter of the declared signature
  except its variadic one) and of return checks.
\<close>

definition positional :: "gotype \<Rightarrow> int" where
  "positional callFunc =
    (case NumIn callFunc of None \<Rightarrow> 0 | Some n \<Rightarrow>
      (if IsVariadic callFunc = Some True then n - 1 else n))"

definition returned :: "gotype \<Rightarrow> int" where
  "returned callFunc = (case NumOut callFunc of None \<Rightarrow> 0 | Some n \<Rightarrow> n)"

definition traversal :: "convertible \<Rightarrow> gotype \<Rightarrow> gotype \<Rightarrow> sig_error result list" where
  "traversal conv doFunc callFunc =
     [inputArityCheck doFunc callFunc]
     @ (if IsVariadic callFunc = Some True then [variadicCheck conv doFunc callFunc] else [])
     @ map (inputCheck conv doFunc callFunc) [0 .. positional callFunc - 1]
     @ [returnArityCheck doFunc callFunc]
     @ map (returnCheck conv doFunc callFunc) [0 .. returned callFunc - 1]"

text \<open>The outcome of a list of checks run in order: the first one that is not \<open>Ok\<close>.\<close>

fun firstFailure :: "'e result list \<Rightarrow> 'e result" where
  "firstFailure [] = Ok"
| "firstFailure (r # rs) = (case r of Ok \<Rightarrow> firstFailure rs | Fail e \<Rightarrow> Fail e | Panic \<Rightarrow> Panic)"

text \<open>
  The variadic matcher as the specification words it, for the declared variadic
  parameter's element type and the substitute's type at that position: equal types
  pass; otherwise the substitute's type must be a sequence whose element type is an
  interface, and the declared element type must convert to it.
\<close>

definition specVariadicMatcher :: "convertible \<Rightarrow> gotype \<Rightarrow> gotype \<Rightarrow> bool" where
  "specVariadicMatcher conv declaredElem subType =
    (if subType = declaredElem then True
     else if Kind subType \<noteq> Slice then False
     else
       (case Elem subType of None \<Rightarrow> False | Some subElem \<Rightarrow>
         (if Kind subElem \<noteq> Interface then False else conv declaredElem subElem)))"

section \<open>A conversion rule for concrete runs\<close>

text \<open>
  Two facts of Go's conversion rule are enough to run the validator on the signatures
  of the repository's tests: a type converts to itself, and every type converts to the
  empty interface \<^verbatim>\<open>interface{}\<close>. \<open>identityOrEmptyInterface\<close> is the relation of
  exactly these pairs. It is used only at concrete inputs, and only for pairs on which
  it agrees with Go.
\<close>

definition identityOrEmptyInterface :: convertible where
  "identityOrEmptyInterface src dst \<longleftrightarrow> src = dst \<or> dst = InterfaceT []"

section \<open>Facts about the accessors\<close>

declare validateVariadicArg.simps [simp del]
declare validateMapKey.simps [simp del]
declare validateMapElem.simps [simp del]
declare validateMapArg.simps [simp del]
declare validateArg.simps [simp del]

lemma basicKind_simple:
  "basicKind b \<noteq> Array" "basicKind b \<noteq> Chan" "basicKind b \<noteq> Func"
  "basicKind b \<noteq> Interface" "basicKind b \<noteq> Map" "basicKind b \<noteq> Pointer"
  "basicKind b \<noteq> Slice" "basicKind b \<noteq> Struct"
  by (cases b; simp)+

lemma inTypes_defined: "inTypes t \<noteq> None \<longleftrightarrow> Kind t = Func"
  by (induction t) (simp_all add: basicKind_simple)

lemma outTypes_defined: "outTypes t \<noteq> None \<longleftrightarrow> Kind t = Func"
  by (induction t) (simp_all add: basicKind_simple)

lemma IsVariadic_defined: "IsVariadic t \<noteq> None \<longleftrightarrow> Kind t = Func"
  by (induction t) (simp_all add: basicKind_simple)

lemma Key_defined: "Key t \<noteq> None \<longleftrightarrow> Kind t = Map"
  by (induction t) (simp_all add: basicKind_simple)

lemma Elem_defined:
  "Elem t \<noteq> None \<longleftrightarrow> Kind t \<in> {Array, Chan, Map, Pointer, Slice}"
  by (induction t) (simp_all add: basicKind_simple)

lemma NumIn_defined: "NumIn t \<noteq> None \<longleftrightarrow> Kind t = Func"
  using inTypes_defined [of t] by (simp add: NumIn_def)

lemma NumOut_defined: "NumOut t \<noteq> None \<longleftrightarrow> Kind t = Func"
  using outTypes_defined [of t] by (simp add: NumOut_def)

section \<open>The validator runs the checks in order\<close>

lemma firstFailure_append:
  "firstFailure (xs @ ys) =
    (case firstFailure xs of Ok \<Rightarrow> firstFailure ys | Fail e \<Rightarrow> Fail e | Panic \<Rightarrow> Panic)"
  by (induction xs) (auto split: result.splits)

lemma firstFailure_Ok_iff: "firstFailure xs = Ok \<longleftrightarrow> (\<forall>r \<in> set xs. r = Ok)"
  by (induction xs) (auto split: result.splits)

lemma inputLoop_step:
  "inputLoop conv doFunc callFunc lastIdx i =
    (if i < lastIdx then
       (case inputCheck conv doFunc callFunc i of
          Panic \<Rightarrow> Panic
        | Fail e \<Rightarrow> Fail e
        | Ok \<Rightarrow> inputLoop conv doFunc callFunc lastIdx (i + 1))
     else Ok)"
  by (subst inputLoop.simps) (simp add: inputCheck_def split: option.splits result.splits)

lemma inputLoop_firstFailure:
  "inputLoop conv doFunc callFunc lastIdx i =
     firstFailure (map (inputCheck conv doFunc callFunc) [i .. lastIdx - 1])"
proof (induction "nat (lastIdx - i)" arbitrary: i)
  case 0
  then have "\<not> i < lastIdx" by simp
  then show ?case by (subst inputLoop_step) simp
next
  case (Suc k)
  then have lt: "i < lastIdx" and k: "k = nat (lastIdx - (i + 1))" by simp_all
  from lt have u: "[i .. lastIdx - 1] = i # [i + 1 .. lastIdx - 1]"
    by (simp add: upto_rec1)
  show ?case
    by (subst inputLoop_step, subst u) (simp add: lt Suc.hyps(1) [OF k] split: result.splits)
qed

lemma outputLoop_step:
  "NumOut callFunc = Some n \<Longrightarrow>
   outputLoop conv doFunc callFunc i =
    (if i < n then
       (case returnCheck conv doFunc callFunc i of
          Panic \<Rightarrow> Panic
        | Fail e \<Rightarrow> Fail e
        | Ok \<Rightarrow> outputLoop conv doFunc callFunc (i + 1))
     else Ok)"
  by (subst outputLoop.simps) (simp add: returnCheck_def split: option.splits result.splits)

lemma outputLoop_firstFailure:
  assumes n: "NumOut callFunc = Some n"
  shows "outputLoop conv doFunc callFunc i =
     firstFailure (map (returnCheck conv doFunc callFunc) [i .. n - 1])"
proof (induction "nat (n - i)" arbitrary: i)
  case 0
  then have "\<not> i < n" by simp
  then show ?case by (subst outputLoop_step [OF n]) simp
next
  case (Suc k)
  then have lt: "i < n" and k: "k = nat (n - (i + 1))" by simp_all
  from lt have u: "[i .. n - 1] = i # [i + 1 .. n - 1]"
    by (simp add: upto_rec1)
  show ?case
    by (subst outputLoop_step [OF n], subst u)
       (simp add: lt Suc.hyps(1) [OF k] split: result.splits)
qed

lemma validateFrom_firstFailure:
  "validateFrom conv doFunc callFunc lastIdx =
     firstFailure (map (inputCheck conv doFunc callFunc) [0 .. lastIdx - 1]
       @ [returnArityCheck doFunc callFunc]
       @ map (returnCheck conv doFunc callFunc) [0 .. returned callFunc - 1])"
  by (simp add: validateFrom_def firstFailure_append inputLoop_firstFailure
      returnArityCheck_def returned_def outputLoop_firstFailure
      split: result.splits option.splits)

lemma ValidateInputAndOutputSig_firstFailure:
  "ValidateInputAndOutputSig conv doFunc callFunc = firstFailure (traversal conv doFunc callFunc)"
proof (cases "NumIn doFunc")
  case None
  then show ?thesis
    by (simp add: ValidateInputAndOutputSig_def traversal_def inputArityCheck_def)
next
  case (Some m)
  note dm = this
  show ?thesis
  proof (cases "NumIn callFunc")
    case None
    then show ?thesis using dm
      by (simp add: ValidateInputAndOutputSig_def traversal_def inputArityCheck_def)
  next
    case (Some n)
    then obtain v where v: "IsVariadic callFunc = Some v"
      using NumIn_defined [of callFunc] IsVariadic_defined [of callFunc] by auto
    show ?thesis
    proof (cases "m = n")
      case False
      then show ?thesis using dm Some
        by (simp add: ValidateInputAndOutputSig_def traversal_def inputArityCheck_def)
    next
      case True
      show ?thesis
      proof (cases v)
        case False
        then show ?thesis using dm Some v True
          by (simp add: ValidateInputAndOutputSig_def traversal_def inputArityCheck_def
              positional_def validateFrom_firstFailure)
      next
        case vt: True
        show ?thesis
        proof (cases "validateVariadicArg conv n doFunc callFunc")
          case None
          then show ?thesis using dm Some v True vt
            by (simp add: ValidateInputAndOutputSig_def traversal_def inputArityCheck_def
                variadicCheck_def)
        next
          case (Some ok)
          then show ?thesis using dm \<open>NumIn callFunc = Some n\<close> v True vt
            by (cases ok)
              (simp_all add: ValidateInputAndOutputSig_def traversal_def inputArityCheck_def
                variadicCheck_def positional_def validateFrom_firstFailure
                split: option.splits)
        qed
      qed
    qed
  qed
qed

section \<open>The argument matchers\<close>

lemma Key_Map: "Kind t = Map \<Longrightarrow> \<exists>k. Key t = Some k"
  using Key_defined [of t] by auto

lemma Elem_Map: "Kind t = Map \<Longrightarrow> \<exists>e. Elem t = Some e"
  using Elem_defined [of t] by auto

lemma Elem_Slice: "Kind t = Slice \<Longrightarrow> \<exists>e. Elem t = Some e"
  using Elem_defined [of t] by auto

lemma validateMapKey_defined:
  "validateMapKey conv doArg callArg = Panic \<longleftrightarrow> Kind doArg \<noteq> Map \<or> Kind callArg \<noteq> Map"
  using Key_defined [of doArg] Key_defined [of callArg]
  by (auto simp add: validateMapKey.simps split: option.splits)

lemma validateMapElem_defined:
  "Kind doArg = Map \<Longrightarrow> Kind callArg = Map \<Longrightarrow> validateMapElem conv doArg callArg \<noteq> Panic"
  using Elem_Map [of doArg] Elem_Map [of callArg]
  by (auto simp add: validateMapElem.simps split: option.splits)

lemma validateMapArg_defined:
  "validateMapArg conv doArg callArg = Panic \<longleftrightarrow> Kind doArg \<noteq> Map \<or> Kind callArg \<noteq> Map"
  using validateMapKey_defined [of conv doArg callArg] validateMapElem_defined [of doArg callArg conv]
  by (auto simp add: validateMapArg.simps split: result.splits)

lemma validateArg_returns: "validateArg conv doArg callArg \<noteq> Panic"
  using validateMapArg_defined [of conv doArg callArg]
  by (auto simp add: validateArg.simps)

lemma validateArg_dispatch:
  "validateArg conv doArg callArg =
    (if Kind callArg = Map \<and> Kind doArg = Map then validateMapArg conv doArg callArg
     else if Kind callArg = Interface then validateInterfaceArg conv doArg callArg
     else if Kind callArg \<noteq> Kind doArg then Fail (KindMismatch (Kind callArg) (Kind doArg))
     else if doArg \<noteq> callArg then Fail (TypeMismatch callArg doArg)
     else Ok)"
  by (auto simp add: validateArg.simps)

lemma validateMapArg_eq:
  assumes "Key callArg = Some callKey" "Key doArg = Some doKey"
    and "Elem callArg = Some callElem" "Elem doArg = Some doElem"
  shows "validateMapArg conv doArg callArg =
    (if Kind callKey = Interface \<and> \<not> conv doKey callKey
       then Fail (MapKey (NotConvertible callKey doKey))
     else if Kind callKey \<noteq> Interface \<and> doKey \<noteq> callKey
       then Fail (MapKeyMismatch callKey doKey)
     else if Kind callElem = Interface \<and> \<not> conv doElem callElem
       then Fail (MapElement (NotConvertible callElem doElem))
     else if Kind callElem \<noteq> Interface \<and> doElem \<noteq> callElem
       then Fail (MapElementMismatch callElem doElem)
     else Ok)"
  using assms
  by (simp add: validateMapArg.simps validateMapKey.simps validateMapElem.simps)

lemma validateVariadicArg_eq:
  assumes "In doFunc (lastIdx - 1) = Some subType"
    and "In callFunc (lastIdx - 1) = Some (SliceT declaredElem)"
  shows "validateVariadicArg conv lastIdx doFunc callFunc =
    Some (subType = SliceT declaredElem
          \<or> (Kind subType = Slice \<and> Kind declaredElem = Interface
              \<and> (case Elem subType of None \<Rightarrow> False | Some subElem \<Rightarrow> conv subElem declaredElem)))"
proof (cases "Kind subType = Slice")
  case True
  then obtain subElem where "Elem subType = Some subElem"
    using Elem_Slice by blast
  then show ?thesis using assms True
    by (auto simp add: validateVariadicArg.simps)
next
  case False
  then have "subType \<noteq> SliceT declaredElem" by auto
  then show ?thesis using assms False
    by (simp add: validateVariadicArg.simps)
qed

lemma In_FuncT:
  "In (FuncT ps v rs) i = index (ps @ (case v of None \<Rightarrow> [] | Some e \<Rightarrow> [SliceT e])) i"
  by (simp add: In_def)

lemma index_last: "index (ps @ [t]) (int (length ps)) = Some t"
  by (simp add: index_def)

lemma concrete_upto: "[0 .. (0::int)] = [0]" "[0 .. (-1::int)] = []" "[0 .. (1::int)] = [0, 1]"
  by (simp_all add: upto.simps)

section \<open>The validator on function types\<close>

lemma In_defined: "NumIn t = Some n \<Longrightarrow> 0 \<le> i \<Longrightarrow> i < n \<Longrightarrow> \<exists>a. In t i = Some a"
  by (auto simp add: NumIn_def In_def index_def)

lemma Out_defined: "NumOut t = Some n \<Longrightarrow> 0 \<le> i \<Longrightarrow> i < n \<Longrightarrow> \<exists>a. Out t i = Some a"
  by (auto simp add: NumOut_def Out_def index_def)

lemma In_range: "In t i = Some a \<Longrightarrow> \<exists>n. NumIn t = Some n \<and> 0 \<le> i \<and> i < n"
  by (auto simp add: NumIn_def In_def index_def split: option.splits if_splits)

lemma Out_range: "Out t i = Some a \<Longrightarrow> \<exists>n. NumOut t = Some n \<and> 0 \<le> i \<and> i < n"
  by (auto simp add: NumOut_def Out_def index_def split: option.splits if_splits)

lemma variadic_inTypes:
  "IsVariadic t = Some True \<Longrightarrow> \<exists>ps e. inTypes t = Some (ps @ [SliceT e])"
  by (induction t) auto

lemma variadic_last:
  assumes "IsVariadic t = Some True" "NumIn t = Some n"
  shows "1 \<le> n \<and> (\<exists>e. In t (n - 1) = Some (SliceT e))"
proof -
  obtain ps e where ps: "inTypes t = Some (ps @ [SliceT e])"
    using variadic_inTypes [OF assms(1)] by blast
  then have n: "n = int (length ps) + 1" using assms(2) by (simp add: NumIn_def)
  have "In t (n - 1) = Some (SliceT e)"
    using ps n index_last [of ps "SliceT e"] by (simp add: In_def)
  then show ?thesis using n by simp
qed

lemma firstFailure_returns: "\<forall>r \<in> set xs. r \<noteq> Panic \<Longrightarrow> firstFailure xs \<noteq> Panic"
  by (induction xs) (auto split: result.splits)

lemma inputCheck_returns:
  "NumIn doFunc = Some n \<Longrightarrow> NumIn callFunc = Some n \<Longrightarrow> 0 \<le> i \<Longrightarrow> i < n \<Longrightarrow>
   inputCheck conv doFunc callFunc i \<noteq> Panic"
  using In_defined [of doFunc n i] In_defined [of callFunc n i] validateArg_returns
  by (auto simp add: inputCheck_def split: result.splits)

lemma returnCheck_returns:
  "NumOut doFunc = Some n \<Longrightarrow> NumOut callFunc = Some n \<Longrightarrow> 0 \<le> i \<Longrightarrow> i < n \<Longrightarrow>
   returnCheck conv doFunc callFunc i \<noteq> Panic"
  using Out_defined [of doFunc n i] Out_defined [of callFunc n i] validateArg_returns
  by (auto simp add: returnCheck_def split: result.splits)

lemma variadicCheck_returns:
  assumes "IsVariadic callFunc = Some True" "NumIn doFunc = Some n" "NumIn callFunc = Some n"
  shows "variadicCheck conv doFunc callFunc \<noteq> Panic"
proof -
  obtain e where c: "In callFunc (n - 1) = Some (SliceT e)" and n: "1 \<le> n"
    using variadic_last [OF assms(1,3)] by blast
  obtain d where d: "In doFunc (n - 1) = Some d"
    using In_defined [OF assms(2), of "n - 1"] n by auto
  show ?thesis
    using validateVariadicArg_eq [OF d c, of conv] assms(3) c d
    by (simp add: variadicCheck_def split: bool.splits)
qed

lemma validateFrom_returns:
  assumes "NumIn doFunc = Some n" "NumIn callFunc = Some n" "lastIdx \<le> n"
    and "Kind doFunc = Func" "Kind callFunc = Func"
  shows "validateFrom conv doFunc callFunc lastIdx \<noteq> Panic"
proof -
  obtain p q where p: "NumOut doFunc = Some p" and q: "NumOut callFunc = Some q"
    using NumOut_defined assms(4,5) by (metis option.exhaust)
  have ins: "firstFailure (map (inputCheck conv doFunc callFunc) [0 .. lastIdx - 1]) \<noteq> Panic"
    using inputCheck_returns [OF assms(1,2)] assms(3)
    by (intro firstFailure_returns) auto
  show ?thesis
  proof (cases "p = q")
    case True
    have "firstFailure (map (returnCheck conv doFunc callFunc) [0 .. q - 1]) \<noteq> Panic"
      using returnCheck_returns [OF p [unfolded True] q]
      by (intro firstFailure_returns) auto
    then show ?thesis using ins p q True
      by (simp add: validateFrom_firstFailure firstFailure_append returnArityCheck_def
          returned_def split: result.splits)
  next
    case False
    then show ?thesis using ins p q
      by (simp add: validateFrom_firstFailure firstFailure_append returnArityCheck_def
          split: result.splits)
  qed
qed

lemma ValidateInputAndOutputSig_returns:
  assumes "Kind doFunc = Func" "Kind callFunc = Func"
  shows "ValidateInputAndOutputSig conv doFunc callFunc \<noteq> Panic"
proof -
  obtain m n v where m: "NumIn doFunc = Some m" and n: "NumIn callFunc = Some n"
    and v: "IsVariadic callFunc = Some v"
    using NumIn_defined IsVariadic_defined assms by (metis option.exhaust)
  show ?thesis
  proof (cases "m = n")
    case False
    then show ?thesis using m n by (simp add: ValidateInputAndOutputSig_def)
  next
    case True
    note m' = m [unfolded True]
    show ?thesis
    proof (cases v)
      case False
      then show ?thesis
        using m' n v validateFrom_returns [OF m' n _ assms, of n conv]
        by (simp add: ValidateInputAndOutputSig_def)
    next
      case vt: True
      have "IsVariadic callFunc = Some True" using v vt by simp
      then have "variadicCheck conv doFunc callFunc \<noteq> Panic"
        using variadicCheck_returns [OF _ m' n] by simp
      then show ?thesis
        using m' n v vt validateFrom_returns [OF m' n _ assms, of "n - 1" conv]
        by (simp add: ValidateInputAndOutputSig_def variadicCheck_def
            split: option.splits bool.splits)
    qed
  qed
qed

lemma ValidateInputAndOutputSig_Ok:
  "ValidateInputAndOutputSig conv doFunc callFunc = Ok \<longleftrightarrow>
     inputArityCheck doFunc callFunc = Ok
     \<and> (IsVariadic callFunc = Some True \<longrightarrow> variadicCheck conv doFunc callFunc = Ok)
     \<and> (\<forall>i. 0 \<le> i \<and> i < positional callFunc \<longrightarrow> inputCheck conv doFunc callFunc i = Ok)
     \<and> returnArityCheck doFunc callFunc = Ok
     \<and> (\<forall>i. 0 \<le> i \<and> i < returned callFunc \<longrightarrow> returnCheck conv doFunc callFunc i = Ok)"
  unfolding ValidateInputAndOutputSig_firstFailure firstFailure_Ok_iff traversal_def
  by auto

lemma validateArg_interface:
  "Kind callArg = Interface \<Longrightarrow>
   validateArg conv doArg callArg =
     (if conv doArg callArg then Ok else Fail (NotConvertible callArg doArg))"
  by (simp add: validateArg.simps)

lemma validateArg_strict:
  "Kind callArg \<noteq> Interface \<Longrightarrow> Kind callArg \<noteq> Map \<Longrightarrow>
   validateArg conv doArg callArg =
     (if Kind callArg \<noteq> Kind doArg then Fail (KindMismatch (Kind callArg) (Kind doArg))
      else if doArg \<noteq> callArg then Fail (TypeMismatch callArg doArg)
      else Ok)"
  by (simp add: validateArg.simps)

lemma validateArg_refl:
  assumes "\<forall>t. Kind t = Interface \<longrightarrow> conv t t"
  shows "validateArg conv t t = Ok"
proof (cases "Kind t = Map")
  case True
  obtain k e where "Key t = Some k" "Elem t = Some e"
    using Key_Map [OF True] Elem_Map [OF True] by blast
  then show ?thesis
    using assms True validateMapArg_eq [of t k t k e e conv]
    by (simp add: validateArg_dispatch)
next
  case False
  then show ?thesis using assms by (simp add: validateArg_dispatch)
qed

lemma positional_le:
  "NumIn callFunc = Some n \<Longrightarrow> positional callFunc \<le> n"
  by (simp add: positional_def)

lemma interface_not_variadic:
  assumes "In callFunc i = Some callArg" "Kind callArg = Interface"
  shows "0 \<le> i \<and> i < positional callFunc"
proof -
  obtain n where n: "NumIn callFunc = Some n" "0 \<le> i" "i < n"
    using In_range [OF assms(1)] by blast
  show ?thesis
  proof (cases "IsVariadic callFunc = Some True")
    case True
    then obtain e where "In callFunc (n - 1) = Some (SliceT e)"
      using variadic_last [OF True n(1)] by blast
    then have "i \<noteq> n - 1" using assms by auto
    then show ?thesis using n True by (simp add: positional_def)
  next
    case False
    then show ?thesis using n by (simp add: positional_def)
  qed
qed

lemma inputs_pass:
  assumes "inputArityCheck doFunc callFunc = Ok"
    and "IsVariadic callFunc = Some True \<longrightarrow> variadicCheck conv doFunc callFunc = Ok"
    and "\<forall>i. 0 \<le> i \<and> i < positional callFunc \<longrightarrow> inputCheck conv doFunc callFunc i = Ok"
  shows "ValidateInputAndOutputSig conv doFunc callFunc =
    firstFailure ([returnArityCheck doFunc callFunc]
      @ map (returnCheck conv doFunc callFunc) [0 .. returned callFunc - 1])"
proof -
  have "firstFailure ([inputArityCheck doFunc callFunc]
      @ (if IsVariadic callFunc = Some True then [variadicCheck conv doFunc callFunc] else [])
      @ map (inputCheck conv doFunc callFunc) [0 .. positional callFunc - 1]) = Ok"
    unfolding firstFailure_Ok_iff using assms by auto
  then show ?thesis
    using firstFailure_append [of "[inputArityCheck doFunc callFunc]
      @ (if IsVariadic callFunc = Some True then [variadicCheck conv doFunc callFunc] else [])
      @ map (inputCheck conv doFunc callFunc) [0 .. positional callFunc - 1]"
      "[returnArityCheck doFunc callFunc]
      @ map (returnCheck conv doFunc callFunc) [0 .. returned callFunc - 1]"]
    by (simp add: ValidateInputAndOutputSig_firstFailure traversal_def)
qed

lemma NumIn_FuncT:
  "NumIn (FuncT ps v rs) = Some (int (length ps) + (if v = None then 0 else 1))"
  by (cases v) (simp_all add: NumIn_def)

lemma In_Func: "In t i = Some a \<Longrightarrow> Kind t = Func"
  using In_range [of t i a] NumIn_defined [of t] by auto

lemma Out_Func: "Out t i = Some a \<Longrightarrow> Kind t = Func"
  using Out_range [of t i a] NumOut_defined [of t] by auto

lemma Out_returned: "Out t i = Some a \<Longrightarrow> 0 \<le> i \<and> i < returned t"
  using Out_range [of t i a] by (auto simp add: returned_def)

lemma not_Ok_fails:
  assumes "Kind doFunc = Func" "Kind callFunc = Func"
    and "ValidateInputAndOutputSig conv doFunc callFunc \<noteq> Ok"
  shows "\<exists>e. ValidateInputAndOutputSig conv doFunc callFunc = Fail e"
  using ValidateInputAndOutputSig_returns [OF assms(1,2), of conv] assms(3)
  by (cases "ValidateInputAndOutputSig conv doFunc callFunc") auto

lemma sequence_for_variadic:
  assumes refl: "\<forall>t. Kind t = Interface \<longrightarrow> conv t t"
  shows "ValidateInputAndOutputSig conv
           (FuncT (ps @ [SliceT E]) None rs) (FuncT ps (Some E) rs) = Ok"
proof -
  let ?D = "FuncT (ps @ [SliceT E]) None rs" and ?C = "FuncT ps (Some E) rs"
  have n: "NumIn ?C = Some (int (length ps) + 1)" and nd: "NumIn ?D = Some (int (length ps) + 1)"
    by (simp_all add: NumIn_def)
  have q: "NumOut ?C = Some (int (length rs))" by (simp add: NumOut_def)
  have same_in: "In ?D i = In ?C i" for i by (simp add: In_def)
  have same_out: "Out ?D i = Out ?C i" for i by (simp add: Out_def)
  have a: "inputArityCheck ?D ?C = Ok" using n nd by (simp add: inputArityCheck_def)
  have b: "variadicCheck conv ?D ?C = Ok"
  proof -
    have c: "In ?C (int (length ps) + 1 - 1) = Some (SliceT E)"
      using index_last [of ps "SliceT E"] by (simp add: In_FuncT)
    have d: "In ?D (int (length ps) + 1 - 1) = Some (SliceT E)"
      using c same_in by simp
    show ?thesis using validateVariadicArg_eq [OF d c, of conv] n
      by (simp add: variadicCheck_def)
  qed
  have c: "inputCheck conv ?D ?C i = Ok" if h: "0 \<le> i \<and> i < positional ?C" for i
  proof -
    obtain t where t: "In ?C i = Some t"
      using In_defined [OF n, of i] h positional_le [OF n] by auto
    then have "In ?D i = Some t" using same_in by simp
    then show ?thesis using t validateArg_refl [of conv t] refl by (simp add: inputCheck_def)
  qed
  have d: "returnArityCheck ?D ?C = Ok" by (simp add: returnArityCheck_def NumOut_def)
  have e: "returnCheck conv ?D ?C i = Ok" if h: "0 \<le> i \<and> i < returned ?C" for i
  proof -
    obtain t where t: "Out ?C i = Some t"
      using Out_defined [OF q, of i] h q by (auto simp add: returned_def)
    then have "Out ?D i = Some t" using same_out by simp
    then show ?thesis using t validateArg_refl [of conv t] refl by (simp add: returnCheck_def)
  qed
  show ?thesis
    using a b c d e by (simp add: ValidateInputAndOutputSig_Ok)
qed

section \<open>Claims\<close>

text \<open>
  C10. \<^verbatim>\<open>validateArg\<close> reaches \<^verbatim>\<open>validateMapArg\<close> only when the declared type and
  the substitute's type are both of kind Map: on every other pair its result is built
  without the mapping matcher. For two types of kind Map the four accesses
  \<^verbatim>\<open>Key\<close> and \<^verbatim>\<open>Elem\<close> of the mapping matcher are defined and the matcher does not
  panic; so \<^verbatim>\<open>validateArg\<close> never panics.
\<close>

theorem mapping_matcher_accesses_defined:
  "validateArg conv doArg callArg =
    (if Kind callArg = Map \<and> Kind doArg = Map then validateMapArg conv doArg callArg
     else if Kind callArg = Interface then validateInterfaceArg conv doArg callArg
     else if Kind callArg \<noteq> Kind doArg then Fail (KindMismatch (Kind callArg) (Kind doArg))
     else if doArg \<noteq> callArg then Fail (TypeMismatch callArg doArg)
     else Ok)
   \<and> (Kind callArg = Map \<and> Kind doArg = Map \<longrightarrow>
        Key callArg \<noteq> None \<and> Key doArg \<noteq> None \<and> Elem callArg \<noteq> None \<and> Elem doArg \<noteq> None
        \<and> validateMapArg conv doArg callArg \<noteq> Panic)
   \<and> validateArg conv doArg callArg \<noteq> Panic"
  using validateArg_dispatch [of conv doArg callArg] validateArg_returns [of conv doArg callArg]
    validateMapArg_defined [of conv doArg callArg]
    Key_Map [of callArg] Key_Map [of doArg] Elem_Map [of callArg] Elem_Map [of doArg]
  by auto

theorem mapping_matcher_accesses_defined_witness:
  "Kind (MapT (InterfaceT []) (BasicT TInt)) = Map \<and> Kind (MapT (BasicT TString) (BasicT TInt)) = Map
   \<and> Key (MapT (InterfaceT []) (BasicT TInt)) \<noteq> None
   \<and> Key (MapT (BasicT TString) (BasicT TInt)) \<noteq> None
   \<and> Elem (MapT (InterfaceT []) (BasicT TInt)) \<noteq> None
   \<and> Elem (MapT (BasicT TString) (BasicT TInt)) \<noteq> None
   \<and> validateMapArg identityOrEmptyInterface
        (MapT (BasicT TString) (BasicT TInt)) (MapT (InterfaceT []) (BasicT TInt)) \<noteq> Panic"
  using mapping_matcher_accesses_defined [of identityOrEmptyInterface
      "MapT (BasicT TString) (BasicT TInt)" "MapT (InterfaceT []) (BasicT TInt)"]
  by simp

text \<open>
  C1, as the specification states it, fails on the code. The specification compares the
  substitute's type with the declared element type, asks for an interface as the
  substitute's element type, and converts the declared element type to it. The code
  compares the substitute's type with the declared parameter's type (the slice), asks
  for an interface as the \<^emph>\<open>declared\<close> element type, and converts the substitute's
  element type to it. Declared \<^verbatim>\<open>func(...interface{}) bool\<close> with substitute
  \<^verbatim>\<open>func([]int) bool\<close> passes the code's check and fails the specification's; declared
  \<^verbatim>\<open>func(...int) bool\<close> with substitute \<^verbatim>\<open>func(int) bool\<close> fails the code's check and
  passes the specification's.
\<close>

theorem variadic_matcher_counterexample:
  "validateVariadicArg identityOrEmptyInterface 1
      (FuncT [SliceT (BasicT TInt)] None [BasicT TBool])
      (FuncT [] (Some (InterfaceT [])) [BasicT TBool]) = Some True
   \<and> specVariadicMatcher identityOrEmptyInterface (InterfaceT []) (SliceT (BasicT TInt)) = False
   \<and> validateVariadicArg identityOrEmptyInterface 1
      (FuncT [BasicT TInt] None [BasicT TBool])
      (FuncT [] (Some (BasicT TInt)) [BasicT TBool]) = Some False
   \<and> specVariadicMatcher identityOrEmptyInterface (BasicT TInt) (BasicT TInt) = True"
  by (simp add: validateVariadicArg.simps In_def index_def specVariadicMatcher_def
      identityOrEmptyInterface_def)

text \<open>
  C1, amended. For the substitute's type \<open>subType\<close> and the declared variadic parameter
  of element type \<open>declaredElem\<close> at the last position: the check succeeds if \<open>subType\<close>
  is the slice of \<open>declaredElem\<close>; otherwise \<open>subType\<close> must be of kind Slice and
  \<open>declaredElem\<close> of kind Interface, and the check then succeeds if and only if the
  element type of \<open>subType\<close> is convertible to \<open>declaredElem\<close>.
\<close>

theorem variadic_matcher:
  "In doFunc (lastIdx - 1) = Some subType \<Longrightarrow>
   In callFunc (lastIdx - 1) = Some (SliceT declaredElem) \<Longrightarrow>
   validateVariadicArg conv lastIdx doFunc callFunc =
    Some (subType = SliceT declaredElem
          \<or> (Kind subType = Slice \<and> Kind declaredElem = Interface
              \<and> (case Elem subType of None \<Rightarrow> False | Some subElem \<Rightarrow> conv subElem declaredElem)))"
  by (rule validateVariadicArg_eq)

theorem variadic_matcher_witness:
  "In (FuncT [BasicT TString, SliceT (BasicT TInt)] None []) (2 - 1) = Some (SliceT (BasicT TInt))
   \<and> In (FuncT [BasicT TString] (Some (InterfaceT [])) []) (2 - 1) = Some (SliceT (InterfaceT []))
   \<and> validateVariadicArg identityOrEmptyInterface 2
        (FuncT [BasicT TString, SliceT (BasicT TInt)] None [])
        (FuncT [BasicT TString] (Some (InterfaceT [])) []) = Some True"
proof -
  have d: "In (FuncT [BasicT TString, SliceT (BasicT TInt)] None []) (2 - 1) = Some (SliceT (BasicT TInt))"
    by (simp add: In_def index_def)
  have c: "In (FuncT [BasicT TString] (Some (InterfaceT [])) []) (2 - 1) = Some (SliceT (InterfaceT []))"
    by (simp add: In_def index_def)
  show ?thesis
    using d c variadic_matcher [OF d c, of identityOrEmptyInterface]
    by (simp add: identityOrEmptyInterface_def)
qed

text \<open>
  C2. A declared variadic parameter \<^verbatim>\<open>...E\<close> after the parameters \<open>ps\<close> is satisfied
  by a substitute whose parameter at that position is \<^verbatim>\<open>[]E\<close>: the variadic check
  passes, and the substitute with the same other parameters and the same results
  validates, under every conversion rule that converts each interface type to itself.
  Declared \<^verbatim>\<open>func(...int) bool\<close> with substitute \<^verbatim>\<open>func([]int) bool\<close> validates, for
  every conversion rule; declared \<^verbatim>\<open>func(...interface{}) bool\<close> with the same substitute
  validates for every conversion rule under which \<^verbatim>\<open>int\<close> converts to
  \<^verbatim>\<open>interface{}\<close>, as it does in Go.
\<close>

theorem variadic_accepts_sequence:
  "(length qs = length ps \<longrightarrow>
      validateVariadicArg conv (int (length ps) + 1)
        (FuncT (qs @ [SliceT E]) None rs') (FuncT ps (Some E) rs) = Some True)
   \<and> ((\<forall>t. Kind t = Interface \<longrightarrow> conv t t) \<longrightarrow>
        ValidateInputAndOutputSig conv
          (FuncT (ps @ [SliceT E]) None rs) (FuncT ps (Some E) rs) = Ok)
   \<and> ValidateInputAndOutputSig conv
        (FuncT [SliceT (BasicT TInt)] None [BasicT TBool])
        (FuncT [] (Some (BasicT TInt)) [BasicT TBool]) = Ok
   \<and> (conv (BasicT TInt) (InterfaceT []) \<longrightarrow>
        ValidateInputAndOutputSig conv
          (FuncT [SliceT (BasicT TInt)] None [BasicT TBool])
          (FuncT [] (Some (InterfaceT [])) [BasicT TBool]) = Ok)"
proof (intro conjI impI)
  assume len: "length qs = length ps"
  have d: "In (FuncT (qs @ [SliceT E]) None rs') (int (length ps) + 1 - 1) = Some (SliceT E)"
    using index_last [of qs "SliceT E"] len by (simp add: In_FuncT)
  have c: "In (FuncT ps (Some E) rs) (int (length ps) + 1 - 1) = Some (SliceT E)"
    using index_last [of ps "SliceT E"] by (simp add: In_FuncT)
  show "validateVariadicArg conv (int (length ps) + 1)
        (FuncT (qs @ [SliceT E]) None rs') (FuncT ps (Some E) rs) = Some True"
    using validateVariadicArg_eq [OF d c, of conv] by simp
next
  assume "\<forall>t. Kind t = Interface \<longrightarrow> conv t t"
  then show "ValidateInputAndOutputSig conv
          (FuncT (ps @ [SliceT E]) None rs) (FuncT ps (Some E) rs) = Ok"
    by (rule sequence_for_variadic)
next
  show "ValidateInputAndOutputSig conv
        (FuncT [SliceT (BasicT TInt)] None [BasicT TBool])
        (FuncT [] (Some (BasicT TInt)) [BasicT TBool]) = Ok"
    by (simp add: ValidateInputAndOutputSig_firstFailure traversal_def inputArityCheck_def
        variadicCheck_def returnArityCheck_def returnCheck_def positional_def returned_def
        NumIn_def NumOut_def In_def Out_def index_def validateVariadicArg.simps
        validateArg.simps concrete_upto)
next
  assume "conv (BasicT TInt) (InterfaceT [])"
  then show "ValidateInputAndOutputSig conv
          (FuncT [SliceT (BasicT TInt)] None [BasicT TBool])
          (FuncT [] (Some (InterfaceT [])) [BasicT TBool]) = Ok"
    by (simp add: ValidateInputAndOutputSig_firstFailure traversal_def inputArityCheck_def
        variadicCheck_def returnArityCheck_def returnCheck_def positional_def returned_def
        NumIn_def NumOut_def In_def Out_def index_def validateVariadicArg.simps
        validateArg.simps concrete_upto)
qed

theorem variadic_accepts_sequence_witness:
  "length [BasicT TString] = length [BasicT TString]
   \<and> validateVariadicArg identityOrEmptyInterface (int (length [BasicT TString]) + 1)
        (FuncT ([BasicT TString] @ [SliceT (BasicT TInt)]) None [])
        (FuncT [BasicT TString] (Some (BasicT TInt)) []) = Some True
   \<and> (\<forall>t. identityOrEmptyInterface t t)
   \<and> ValidateInputAndOutputSig identityOrEmptyInterface
        (FuncT ([BasicT TString] @ [SliceT (BasicT TInt)]) None [])
        (FuncT [BasicT TString] (Some (BasicT TInt)) []) = Ok
   \<and> identityOrEmptyInterface (BasicT TInt) (InterfaceT [])
   \<and> ValidateInputAndOutputSig identityOrEmptyInterface
          (FuncT [SliceT (BasicT TInt)] None [BasicT TBool])
          (FuncT [] (Some (InterfaceT [])) [BasicT TBool]) = Ok"
  using variadic_accepts_sequence [of "[BasicT TString]" "[BasicT TString]"
      identityOrEmptyInterface "BasicT TInt" "[]" "[]"]
  by (simp add: identityOrEmptyInterface_def)

text \<open>
  C3, as the specification states it, fails on the code: for declared
  \<^verbatim>\<open>func(int) bool\<close> and substitute \<^verbatim>\<open>func(string) bool\<close> the failure at input
  position 0 is the kind mismatch ("expected arg of kind int not string"), which
  \<^verbatim>\<open>validateArg\<close> tests before it compares the types, and not the type mismatch.
\<close>

theorem int_string_counterexample:
  "ValidateInputAndOutputSig identityOrEmptyInterface
      (FuncT [BasicT TString] None [BasicT TBool]) (FuncT [BasicT TInt] None [BasicT TBool])
    = Fail (InputArgument 0 (KindMismatch IntK String))
   \<and> ValidateInputAndOutputSig identityOrEmptyInterface
      (FuncT [BasicT TString] None [BasicT TBool]) (FuncT [BasicT TInt] None [BasicT TBool])
    \<noteq> Fail (InputArgument 0 (TypeMismatch (BasicT TInt) (BasicT TString)))"
  by (simp add: ValidateInputAndOutputSig_firstFailure traversal_def inputArityCheck_def
      inputCheck_def positional_def NumIn_def In_def index_def validateArg.simps concrete_upto)

text \<open>
  C3, amended. For declared \<^verbatim>\<open>func(int) bool\<close> and substitute \<^verbatim>\<open>func(string) bool\<close>
  validation fails with a kind mismatch at input position 0, whatever the conversion
  rule.
\<close>

theorem int_string_kind_mismatch:
  "ValidateInputAndOutputSig conv
      (FuncT [BasicT TString] None [BasicT TBool]) (FuncT [BasicT TInt] None [BasicT TBool])
    = Fail (InputArgument 0 (KindMismatch IntK String))"
  by (simp add: ValidateInputAndOutputSig_firstFailure traversal_def inputArityCheck_def
      inputCheck_def positional_def NumIn_def In_def index_def validateArg.simps concrete_upto)

text \<open>
  C5. For two types of kind Map, with their key and element types: the key passes by
  convertibility when the declared key type is of kind Interface and by identity
  otherwise, and so does the element; the key is checked first; the failure returned is
  the first one, marked as a key failure (\<open>MapKey\<close>, \<open>MapKeyMismatch\<close>: "map key") or
  as an element failure (\<open>MapElement\<close>, \<open>MapElementMismatch\<close>: "map element").
\<close>

theorem mapping_matcher:
  "Key callArg = Some callKey \<Longrightarrow> Key doArg = Some doKey \<Longrightarrow>
   Elem callArg = Some callElem \<Longrightarrow> Elem doArg = Some doElem \<Longrightarrow>
   validateMapArg conv doArg callArg =
    (if Kind callKey = Interface \<and> \<not> conv doKey callKey
       then Fail (MapKey (NotConvertible callKey doKey))
     else if Kind callKey \<noteq> Interface \<and> doKey \<noteq> callKey
       then Fail (MapKeyMismatch callKey doKey)
     else if Kind callElem = Interface \<and> \<not> conv doElem callElem
       then Fail (MapElement (NotConvertible callElem doElem))
     else if Kind callElem \<noteq> Interface \<and> doElem \<noteq> callElem
       then Fail (MapElementMismatch callElem doElem)
     else Ok)"
  by (rule validateMapArg_eq)

theorem mapping_matcher_witness:
  "Key (MapT (InterfaceT []) (BasicT TInt)) = Some (InterfaceT [])
   \<and> Key (MapT (BasicT TInt) (BasicT TString)) = Some (BasicT TInt)
   \<and> Elem (MapT (InterfaceT []) (BasicT TInt)) = Some (BasicT TInt)
   \<and> Elem (MapT (BasicT TInt) (BasicT TString)) = Some (BasicT TString)
   \<and> validateMapArg identityOrEmptyInterface
        (MapT (BasicT TInt) (BasicT TString)) (MapT (InterfaceT []) (BasicT TInt))
      = Fail (MapElementMismatch (BasicT TInt) (BasicT TString))"
  using mapping_matcher [of "MapT (InterfaceT []) (BasicT TInt)" "InterfaceT []"
      "MapT (BasicT TInt) (BasicT TString)" "BasicT TInt" "BasicT TInt" "BasicT TString"
      identityOrEmptyInterface]
  by (simp add: identityOrEmptyInterface_def)

text \<open>
  C9. Validating a function type against itself succeeds, whatever its parameters, its
  variadic flag and its results, for every conversion rule under which each interface
  type converts to itself (as every type does in Go).
\<close>

theorem validation_reflexive:
  "Kind S = Func \<Longrightarrow> \<forall>t. Kind t = Interface \<longrightarrow> conv t t \<Longrightarrow>
   ValidateInputAndOutputSig conv S S = Ok"
proof -
  assume S: "Kind S = Func" and refl: "\<forall>t. Kind t = Interface \<longrightarrow> conv t t"
  obtain n q where n: "NumIn S = Some n" and q: "NumOut S = Some q"
    using NumIn_defined NumOut_defined S by (metis option.exhaust)
  have a: "inputArityCheck S S = Ok" using n by (simp add: inputArityCheck_def)
  have b: "variadicCheck conv S S = Ok" if v: "IsVariadic S = Some True"
  proof -
    obtain e where e: "In S (n - 1) = Some (SliceT e)"
      using variadic_last [OF v n] by blast
    show ?thesis using validateVariadicArg_eq [OF e e, of conv] n
      by (simp add: variadicCheck_def)
  qed
  have c: "inputCheck conv S S i = Ok" if h: "0 \<le> i \<and> i < positional S" for i
  proof -
    obtain t where "In S i = Some t"
      using In_defined [OF n, of i] h positional_le [OF n] by auto
    then show ?thesis using validateArg_refl [of conv t] refl by (simp add: inputCheck_def)
  qed
  have d: "returnArityCheck S S = Ok" using q by (simp add: returnArityCheck_def)
  have e: "returnCheck conv S S i = Ok" if h: "0 \<le> i \<and> i < returned S" for i
  proof -
    obtain t where "Out S i = Some t"
      using Out_defined [OF q, of i] h q by (auto simp add: returned_def)
    then show ?thesis using validateArg_refl [of conv t] refl by (simp add: returnCheck_def)
  qed
  show ?thesis
    using a b c d e by (simp add: ValidateInputAndOutputSig_Ok)
qed

theorem validation_reflexive_witness:
  "Kind (FuncT [BasicT TInt, MapT (InterfaceT []) (BasicT TString)] (Some (InterfaceT []))
          [BasicT TBool, Named ''error'' (InterfaceT [(''Error'', FuncT [] None [BasicT TString])])])
     = Func
   \<and> (\<forall>t. identityOrEmptyInterface t t)
   \<and> ValidateInputAndOutputSig identityOrEmptyInterface
       (FuncT [BasicT TInt, MapT (InterfaceT []) (BasicT TString)] (Some (InterfaceT []))
          [BasicT TBool, Named ''error'' (InterfaceT [(''Error'', FuncT [] None [BasicT TString])])])
       (FuncT [BasicT TInt, MapT (InterfaceT []) (BasicT TString)] (Some (InterfaceT []))
          [BasicT TBool, Named ''error'' (InterfaceT [(''Error'', FuncT [] None [BasicT TString])])])
     = Ok"
proof -
  have r: "\<forall>t. identityOrEmptyInterface t t"
    by (simp add: identityOrEmptyInterface_def)
  show ?thesis
    using r validation_reflexive [of
        "FuncT [BasicT TInt, MapT (InterfaceT []) (BasicT TString)] (Some (InterfaceT []))
          [BasicT TBool, Named ''error'' (InterfaceT [(''Error'', FuncT [] None [BasicT TString])])]"
        identityOrEmptyInterface]
    by simp
qed

text \<open>
  C8. The result of a validation is the outcome of the first check that does not pass,
  in the order of \<open>traversal\<close>: the count of inputs, the variadic parameter when the
  declared signature is variadic, the other input positions by increasing index, the
  count of results, the result positions by increasing index. The result holds one
  failure. A failure of an input position is an \<open>InputArgument\<close> and a failure of a
  result position is a \<open>ReturnArgument\<close>, each with its index, and the two differ.
\<close>

theorem first_failure_in_traversal_order:
  "ValidateInputAndOutputSig conv doFunc callFunc = firstFailure (traversal conv doFunc callFunc)
   \<and> traversal conv doFunc callFunc =
       [inputArityCheck doFunc callFunc]
       @ (if IsVariadic callFunc = Some True then [variadicCheck conv doFunc callFunc] else [])
       @ map (inputCheck conv doFunc callFunc) [0 .. positional callFunc - 1]
       @ [returnArityCheck doFunc callFunc]
       @ map (returnCheck conv doFunc callFunc) [0 .. returned callFunc - 1]
   \<and> (inputCheck conv doFunc callFunc i = Fail e \<longrightarrow> (\<exists>a. e = InputArgument i a))
   \<and> (returnCheck conv doFunc callFunc i = Fail e \<longrightarrow> (\<exists>a. e = ReturnArgument i a))
   \<and> InputArgument i a \<noteq> ReturnArgument j b"
  by (auto simp add: ValidateInputAndOutputSig_firstFailure traversal_def inputCheck_def
      returnCheck_def split: option.splits result.splits)

theorem first_failure_in_traversal_order_witness:
  "traversal identityOrEmptyInterface
      (FuncT [BasicT TString] None [BasicT TBool, BasicT TBool])
      (FuncT [BasicT TInt] None [BasicT TBool])
     = [Ok, Fail (InputArgument 0 (KindMismatch IntK String)), Fail (ReturnArity 1 2), Ok]
   \<and> ValidateInputAndOutputSig identityOrEmptyInterface
      (FuncT [BasicT TString] None [BasicT TBool, BasicT TBool])
      (FuncT [BasicT TInt] None [BasicT TBool])
     = Fail (InputArgument 0 (KindMismatch IntK String))
   \<and> inputCheck identityOrEmptyInterface
      (FuncT [BasicT TString] None [BasicT TBool, BasicT TBool])
      (FuncT [BasicT TInt] None [BasicT TBool]) 0
     = Fail (InputArgument 0 (KindMismatch IntK String))
   \<and> returnCheck identityOrEmptyInterface (FuncT [] None [BasicT TString])
      (FuncT [] None [BasicT TInt]) 0 = Fail (ReturnArgument 0 (KindMismatch IntK String))"
proof -
  have t: "traversal identityOrEmptyInterface
      (FuncT [BasicT TString] None [BasicT TBool, BasicT TBool])
      (FuncT [BasicT TInt] None [BasicT TBool])
     = [Ok, Fail (InputArgument 0 (KindMismatch IntK String)), Fail (ReturnArity 1 2), Ok]"
    by (simp add: traversal_def inputArityCheck_def inputCheck_def returnArityCheck_def
        returnCheck_def positional_def returned_def NumIn_def NumOut_def In_def Out_def
        index_def validateArg.simps concrete_upto)
  have r: "returnCheck identityOrEmptyInterface (FuncT [] None [BasicT TString])
      (FuncT [] None [BasicT TInt]) 0 = Fail (ReturnArgument 0 (KindMismatch IntK String))"
    by (simp add: returnCheck_def Out_def index_def validateArg.simps)
  have i: "inputCheck identityOrEmptyInterface
      (FuncT [BasicT TString] None [BasicT TBool, BasicT TBool])
      (FuncT [BasicT TInt] None [BasicT TBool]) 0
     = Fail (InputArgument 0 (KindMismatch IntK String))"
    by (simp add: inputCheck_def In_def index_def validateArg.simps)
  have v: "ValidateInputAndOutputSig identityOrEmptyInterface
      (FuncT [BasicT TString] None [BasicT TBool, BasicT TBool])
      (FuncT [BasicT TInt] None [BasicT TBool])
     = Fail (InputArgument 0 (KindMismatch IntK String))"
    using t first_failure_in_traversal_order [of identityOrEmptyInterface
        "FuncT [BasicT TString] None [BasicT TBool, BasicT TBool]"
        "FuncT [BasicT TInt] None [BasicT TBool]" 0
        "InputArgument 0 (KindMismatch IntK String)"]
    by simp
  show ?thesis using t r i v by simp
qed

text \<open>
  C7. \<^verbatim>\<open>NumIn\<close> counts a variadic parameter as one parameter. When the substitute has
  \<open>m\<close> parameters and the declared signature \<open>n \<noteq> m\<close>, validation fails with the input
  arity mismatch that names \<open>n\<close> and \<open>m\<close>. When every input check passes and the
  substitute returns \<open>p\<close> values where the declared signature returns \<open>q \<noteq> p\<close>,
  validation fails with the return arity mismatch that names \<open>q\<close> and \<open>p\<close>.
\<close>

theorem arity_mismatch:
  "NumIn (FuncT ps v rs) = Some (int (length ps) + (if v = None then 0 else 1))
   \<and> (NumIn doFunc = Some m \<and> NumIn callFunc = Some n \<and> m \<noteq> n \<longrightarrow>
        ValidateInputAndOutputSig conv doFunc callFunc = Fail (InputArity n m))
   \<and> (inputArityCheck doFunc callFunc = Ok
        \<and> (IsVariadic callFunc = Some True \<longrightarrow> variadicCheck conv doFunc callFunc = Ok)
        \<and> (\<forall>i. 0 \<le> i \<and> i < positional callFunc \<longrightarrow> inputCheck conv doFunc callFunc i = Ok)
        \<and> NumOut doFunc = Some p \<and> NumOut callFunc = Some q \<and> p \<noteq> q \<longrightarrow>
        ValidateInputAndOutputSig conv doFunc callFunc = Fail (ReturnArity q p))"
proof (intro conjI impI)
  show "NumIn (FuncT ps v rs) = Some (int (length ps) + (if v = None then 0 else 1))"
    by (rule NumIn_FuncT)
next
  assume "NumIn doFunc = Some m \<and> NumIn callFunc = Some n \<and> m \<noteq> n"
  then show "ValidateInputAndOutputSig conv doFunc callFunc = Fail (InputArity n m)"
    by (simp add: ValidateInputAndOutputSig_def)
next
  assume h: "inputArityCheck doFunc callFunc = Ok
        \<and> (IsVariadic callFunc = Some True \<longrightarrow> variadicCheck conv doFunc callFunc = Ok)
        \<and> (\<forall>i. 0 \<le> i \<and> i < positional callFunc \<longrightarrow> inputCheck conv doFunc callFunc i = Ok)
        \<and> NumOut doFunc = Some p \<and> NumOut callFunc = Some q \<and> p \<noteq> q"
  then have "ValidateInputAndOutputSig conv doFunc callFunc =
    firstFailure ([returnArityCheck doFunc callFunc]
      @ map (returnCheck conv doFunc callFunc) [0 .. returned callFunc - 1])"
    using inputs_pass [of doFunc callFunc conv] by blast
  then show "ValidateInputAndOutputSig conv doFunc callFunc = Fail (ReturnArity q p)"
    using h by (simp add: returnArityCheck_def)
qed

theorem arity_mismatch_witness:
  "NumIn (FuncT [BasicT TInt] None [BasicT TBool]) = Some 1
   \<and> NumIn (FuncT [BasicT TInt] (Some (BasicT TInt)) [BasicT TBool]) = Some 2
   \<and> (1::int) \<noteq> 2
   \<and> ValidateInputAndOutputSig identityOrEmptyInterface
        (FuncT [BasicT TInt] None [BasicT TBool])
        (FuncT [BasicT TInt] (Some (BasicT TInt)) [BasicT TBool]) = Fail (InputArity 2 1)
   \<and> inputArityCheck (FuncT [BasicT TInt] None [BasicT TBool])
        (FuncT [BasicT TInt] None [BasicT TBool, InterfaceT []]) = Ok
   \<and> IsVariadic (FuncT [BasicT TInt] None [BasicT TBool, InterfaceT []]) = Some False
   \<and> positional (FuncT [BasicT TInt] None [BasicT TBool, InterfaceT []]) = 1
   \<and> inputCheck identityOrEmptyInterface (FuncT [BasicT TInt] None [BasicT TBool])
          (FuncT [BasicT TInt] None [BasicT TBool, InterfaceT []]) 0 = Ok
   \<and> NumOut (FuncT [BasicT TInt] None [BasicT TBool]) = Some 1
   \<and> NumOut (FuncT [BasicT TInt] None [BasicT TBool, InterfaceT []]) = Some 2
   \<and> ValidateInputAndOutputSig identityOrEmptyInterface
        (FuncT [BasicT TInt] None [BasicT TBool])
        (FuncT [BasicT TInt] None [BasicT TBool, InterfaceT []]) = Fail (ReturnArity 2 1)"
proof -
  have pos: "\<forall>i. 0 \<le> i \<and> i < positional (FuncT [BasicT TInt] None [BasicT TBool, InterfaceT []]) \<longrightarrow>
        inputCheck identityOrEmptyInterface (FuncT [BasicT TInt] None [BasicT TBool])
          (FuncT [BasicT TInt] None [BasicT TBool, InterfaceT []]) i = Ok"
  proof (intro allI impI)
    fix i :: int
    assume "0 \<le> i \<and> i < positional (FuncT [BasicT TInt] None [BasicT TBool, InterfaceT []])"
    then have "i = 0" by (simp add: positional_def NumIn_def)
    then show "inputCheck identityOrEmptyInterface (FuncT [BasicT TInt] None [BasicT TBool])
          (FuncT [BasicT TInt] None [BasicT TBool, InterfaceT []]) i = Ok"
      by (simp add: inputCheck_def In_def index_def validateArg.simps)
  qed
  show ?thesis
    using pos
      arity_mismatch [of "[]" None "[]" "FuncT [BasicT TInt] None [BasicT TBool]" 1
        "FuncT [BasicT TInt] (Some (BasicT TInt)) [BasicT TBool]" 2 identityOrEmptyInterface 1 1]
      arity_mismatch [of "[]" None "[]" "FuncT [BasicT TInt] None [BasicT TBool]" 1
        "FuncT [BasicT TInt] None [BasicT TBool, InterfaceT []]" 1 identityOrEmptyInterface 1 2]
    by (simp add: NumIn_def NumOut_def inputArityCheck_def positional_def inputCheck_def
        In_def index_def validateArg.simps)
qed

text \<open>
  C4. Where the declared type is of kind Interface, \<^verbatim>\<open>validateArg\<close> succeeds if and only
  if the substitute's type is convertible to it, and otherwise returns the
  \<open>NotConvertible\<close> failure. So it is at every input position and at every result
  position with such a declared type (the declared variadic parameter is a slice, never
  an interface); and when the substitute's type there is not convertible, the whole
  validation fails.
\<close>

theorem interface_position:
  "(Kind callArg = Interface \<longrightarrow>
      validateArg conv doArg callArg =
        (if conv doArg callArg then Ok else Fail (NotConvertible callArg doArg)))
   \<and> (In callFunc i = Some callArg \<and> In doFunc i = Some doArg \<and> Kind callArg = Interface \<longrightarrow>
        inputCheck conv doFunc callFunc i =
          (if conv doArg callArg then Ok
           else Fail (InputArgument i (NotConvertible callArg doArg)))
        \<and> (\<not> conv doArg callArg \<longrightarrow>
             (\<exists>e. ValidateInputAndOutputSig conv doFunc callFunc = Fail e)))
   \<and> (Out callFunc i = Some callArg \<and> Out doFunc i = Some doArg \<and> Kind callArg = Interface \<longrightarrow>
        returnCheck conv doFunc callFunc i =
          (if conv doArg callArg then Ok
           else Fail (ReturnArgument i (NotConvertible callArg doArg)))
        \<and> (\<not> conv doArg callArg \<longrightarrow>
             (\<exists>e. ValidateInputAndOutputSig conv doFunc callFunc = Fail e)))"
proof (intro conjI impI)
  assume "Kind callArg = Interface"
  then show "validateArg conv doArg callArg =
        (if conv doArg callArg then Ok else Fail (NotConvertible callArg doArg))"
    by (rule validateArg_interface)
next
  assume h: "In callFunc i = Some callArg \<and> In doFunc i = Some doArg \<and> Kind callArg = Interface"
  then show c: "inputCheck conv doFunc callFunc i =
          (if conv doArg callArg then Ok
           else Fail (InputArgument i (NotConvertible callArg doArg)))"
    by (simp add: inputCheck_def validateArg_interface)
  assume n: "\<not> conv doArg callArg"
  have pos: "0 \<le> i \<and> i < positional callFunc"
    using interface_not_variadic [of callFunc i callArg] h by simp
  have "ValidateInputAndOutputSig conv doFunc callFunc \<noteq> Ok"
    using pos c n by (auto simp add: ValidateInputAndOutputSig_Ok)
  then show "\<exists>e. ValidateInputAndOutputSig conv doFunc callFunc = Fail e"
    using not_Ok_fails [of doFunc callFunc conv] h In_Func by blast
next
  assume h: "Out callFunc i = Some callArg \<and> Out doFunc i = Some doArg \<and> Kind callArg = Interface"
  then show c: "returnCheck conv doFunc callFunc i =
          (if conv doArg callArg then Ok
           else Fail (ReturnArgument i (NotConvertible callArg doArg)))"
    by (simp add: returnCheck_def validateArg_interface)
  assume n: "\<not> conv doArg callArg"
  have pos: "0 \<le> i \<and> i < returned callFunc"
    using Out_returned [of callFunc i callArg] h by simp
  have "ValidateInputAndOutputSig conv doFunc callFunc \<noteq> Ok"
    using pos c n by (auto simp add: ValidateInputAndOutputSig_Ok)
  then show "\<exists>e. ValidateInputAndOutputSig conv doFunc callFunc = Fail e"
    using not_Ok_fails [of doFunc callFunc conv] h Out_Func by blast
qed

theorem interface_position_witness:
  "Kind (Named ''error'' (InterfaceT [(''Error'', FuncT [] None [BasicT TString])])) = Interface
   \<and> In (FuncT [Named ''error'' (InterfaceT [(''Error'', FuncT [] None [BasicT TString])])] None
          [Named ''error'' (InterfaceT [(''Error'', FuncT [] None [BasicT TString])])]) 0
       = Some (Named ''error'' (InterfaceT [(''Error'', FuncT [] None [BasicT TString])]))
   \<and> In (FuncT [BasicT TBool] None [BasicT TBool]) 0 = Some (BasicT TBool)
   \<and> Out (FuncT [Named ''error'' (InterfaceT [(''Error'', FuncT [] None [BasicT TString])])] None
          [Named ''error'' (InterfaceT [(''Error'', FuncT [] None [BasicT TString])])]) 0
       = Some (Named ''error'' (InterfaceT [(''Error'', FuncT [] None [BasicT TString])]))
   \<and> Out (FuncT [BasicT TBool] None [BasicT TBool]) 0 = Some (BasicT TBool)
   \<and> \<not> identityOrEmptyInterface (BasicT TBool)
         (Named ''error'' (InterfaceT [(''Error'', FuncT [] None [BasicT TString])]))
   \<and> validateArg identityOrEmptyInterface (BasicT TBool)
        (Named ''error'' (InterfaceT [(''Error'', FuncT [] None [BasicT TString])]))
      = Fail (NotConvertible
          (Named ''error'' (InterfaceT [(''Error'', FuncT [] None [BasicT TString])]))
          (BasicT TBool))
   \<and> (\<exists>e. ValidateInputAndOutputSig identityOrEmptyInterface
          (FuncT [BasicT TBool] None [BasicT TBool])
          (FuncT [Named ''error'' (InterfaceT [(''Error'', FuncT [] None [BasicT TString])])] None
            [Named ''error'' (InterfaceT [(''Error'', FuncT [] None [BasicT TString])])])
        = Fail e)"
  using interface_position [of
      "Named ''error'' (InterfaceT [(''Error'', FuncT [] None [BasicT TString])])"
      identityOrEmptyInterface "BasicT TBool"
      "FuncT [Named ''error'' (InterfaceT [(''Error'', FuncT [] None [BasicT TString])])] None
          [Named ''error'' (InterfaceT [(''Error'', FuncT [] None [BasicT TString])])]"
      0 "FuncT [BasicT TBool] None [BasicT TBool]"]
  by (simp add: In_def Out_def index_def identityOrEmptyInterface_def)

text \<open>
  C6, as the specification states it for every position, fails at the position of a
  declared variadic parameter. The declared type there is a slice; for declared
  \<^verbatim>\<open>func(...interface{}) bool\<close> and substitute \<^verbatim>\<open>func([]int) bool\<close> the validation
  succeeds although \<^verbatim>\<open>[]int\<close> is not \<^verbatim>\<open>[]interface{}\<close>: the variadic parameter goes
  through \<^verbatim>\<open>validateVariadicArg\<close>, not through \<^verbatim>\<open>validateArg\<close>.
\<close>

theorem strict_position_counterexample:
  "ValidateInputAndOutputSig identityOrEmptyInterface
      (FuncT [SliceT (BasicT TInt)] None [BasicT TBool])
      (FuncT [] (Some (InterfaceT [])) [BasicT TBool]) = Ok
   \<and> In (FuncT [] (Some (InterfaceT [])) [BasicT TBool]) 0 = Some (SliceT (InterfaceT []))
   \<and> Kind (SliceT (InterfaceT [])) = Slice
   \<and> In (FuncT [SliceT (BasicT TInt)] None [BasicT TBool]) 0 = Some (SliceT (BasicT TInt))
   \<and> SliceT (BasicT TInt) \<noteq> SliceT (InterfaceT [])"
  by (simp add: ValidateInputAndOutputSig_firstFailure traversal_def inputArityCheck_def
      variadicCheck_def returnArityCheck_def returnCheck_def positional_def returned_def
      NumIn_def NumOut_def In_def Out_def index_def validateVariadicArg.simps
      validateArg.simps concrete_upto identityOrEmptyInterface_def)

text \<open>
  C6, amended. Where the declared type is of a kind other than Interface and Map,
  \<^verbatim>\<open>validateArg\<close> succeeds only when the substitute's type is identical to it; another
  type, convertible or not, is rejected with a kind mismatch or a type mismatch. So a
  validation that succeeds has identical types at every result position and at every
  input position other than a declared variadic parameter, wherever the declared type
  is of such a kind.
\<close>

theorem strict_position:
  "(Kind callArg \<noteq> Interface \<and> Kind callArg \<noteq> Map \<longrightarrow>
      validateArg conv doArg callArg =
        (if Kind callArg \<noteq> Kind doArg then Fail (KindMismatch (Kind callArg) (Kind doArg))
         else if doArg \<noteq> callArg then Fail (TypeMismatch callArg doArg)
         else Ok))
   \<and> (ValidateInputAndOutputSig conv doFunc callFunc = Ok
        \<and> 0 \<le> i \<and> i < positional callFunc
        \<and> In callFunc i = Some callArg \<and> In doFunc i = Some doArg
        \<and> Kind callArg \<noteq> Interface \<and> Kind callArg \<noteq> Map \<longrightarrow> doArg = callArg)
   \<and> (ValidateInputAndOutputSig conv doFunc callFunc = Ok
        \<and> Out callFunc i = Some callArg \<and> Out doFunc i = Some doArg
        \<and> Kind callArg \<noteq> Interface \<and> Kind callArg \<noteq> Map \<longrightarrow> doArg = callArg)"
proof (intro conjI impI)
  assume "Kind callArg \<noteq> Interface \<and> Kind callArg \<noteq> Map"
  then show "validateArg conv doArg callArg =
        (if Kind callArg \<noteq> Kind doArg then Fail (KindMismatch (Kind callArg) (Kind doArg))
         else if doArg \<noteq> callArg then Fail (TypeMismatch callArg doArg)
         else Ok)"
    by (simp add: validateArg_strict)
next
  assume h: "ValidateInputAndOutputSig conv doFunc callFunc = Ok
        \<and> 0 \<le> i \<and> i < positional callFunc
        \<and> In callFunc i = Some callArg \<and> In doFunc i = Some doArg
        \<and> Kind callArg \<noteq> Interface \<and> Kind callArg \<noteq> Map"
  then have "inputCheck conv doFunc callFunc i = Ok"
    by (simp add: ValidateInputAndOutputSig_Ok)
  then have "validateArg conv doArg callArg = Ok"
    using h by (simp add: inputCheck_def split: result.splits)
  then have ok: "validateArg conv doArg callArg \<noteq> Fail (TypeMismatch callArg doArg)"
    and ok': "validateArg conv doArg callArg \<noteq> Fail (KindMismatch (Kind callArg) (Kind doArg))"
    by simp_all
  show "doArg = callArg"
  proof (rule ccontr)
    assume "doArg \<noteq> callArg"
    then have "validateArg conv doArg callArg = Fail (TypeMismatch callArg doArg)
        \<or> validateArg conv doArg callArg = Fail (KindMismatch (Kind callArg) (Kind doArg))"
      using h by (simp add: validateArg_strict)
    then show False using ok ok' by blast
  qed
next
  assume h: "ValidateInputAndOutputSig conv doFunc callFunc = Ok
        \<and> Out callFunc i = Some callArg \<and> Out doFunc i = Some doArg
        \<and> Kind callArg \<noteq> Interface \<and> Kind callArg \<noteq> Map"
  then have "0 \<le> i \<and> i < returned callFunc"
    using Out_returned [of callFunc i callArg] by simp
  then have "returnCheck conv doFunc callFunc i = Ok"
    using h by (simp add: ValidateInputAndOutputSig_Ok)
  then have "validateArg conv doArg callArg = Ok"
    using h by (simp add: returnCheck_def split: result.splits)
  then have ok: "validateArg conv doArg callArg \<noteq> Fail (TypeMismatch callArg doArg)"
    and ok': "validateArg conv doArg callArg \<noteq> Fail (KindMismatch (Kind callArg) (Kind doArg))"
    by simp_all
  show "doArg = callArg"
  proof (rule ccontr)
    assume "doArg \<noteq> callArg"
    then have "validateArg conv doArg callArg = Fail (TypeMismatch callArg doArg)
        \<or> validateArg conv doArg callArg = Fail (KindMismatch (Kind callArg) (Kind doArg))"
      using h by (simp add: validateArg_strict)
    then show False using ok ok' by blast
  qed
qed

theorem strict_position_witness:
  "Kind (BasicT TInt) \<noteq> Interface \<and> Kind (BasicT TInt) \<noteq> Map
   \<and> validateArg identityOrEmptyInterface (Named ''MyInt'' (BasicT TInt)) (BasicT TInt)
      = Fail (TypeMismatch (BasicT TInt) (Named ''MyInt'' (BasicT TInt)))
   \<and> ValidateInputAndOutputSig identityOrEmptyInterface
        (FuncT [BasicT TInt] None [BasicT TInt]) (FuncT [BasicT TInt] None [BasicT TInt]) = Ok
   \<and> (0::int) \<le> 0 \<and> 0 < positional (FuncT [BasicT TInt] None [BasicT TInt])
   \<and> In (FuncT [BasicT TInt] None [BasicT TInt]) 0 = Some (BasicT TInt)
   \<and> Out (FuncT [BasicT TInt] None [BasicT TInt]) 0 = Some (BasicT TInt)
   \<and> BasicT TInt = BasicT TInt"
proof -
  have ok: "ValidateInputAndOutputSig identityOrEmptyInterface
        (FuncT [BasicT TInt] None [BasicT TInt]) (FuncT [BasicT TInt] None [BasicT TInt]) = Ok"
    by (simp add: ValidateInputAndOutputSig_firstFailure traversal_def inputArityCheck_def
        inputCheck_def returnArityCheck_def returnCheck_def positional_def returned_def
        NumIn_def NumOut_def In_def Out_def index_def validateArg.simps concrete_upto)
  show ?thesis
    using ok
      strict_position [of "BasicT TInt" identityOrEmptyInterface "Named ''MyInt'' (BasicT TInt)"]
      strict_position [of "BasicT TInt" identityOrEmptyInterface "BasicT TInt"
        "FuncT [BasicT TInt] None [BasicT TInt]" "FuncT [BasicT TInt] None [BasicT TInt]" 0]
    by (simp add: In_def Out_def index_def positional_def NumIn_def)
qed

end
